theory Spec2Isabelle
  imports Main
begin

section \<open>Resource identities\<close>

text \<open>
  The identities of \<^verbatim>\<open>k8s.io/apimachinery/pkg/runtime/schema\<close> that
  \<^verbatim>\<open>mappingFor\<close> handles. Each is a struct of strings; the field names carry a
  prefix because several structs share the names \<^verbatim>\<open>Group\<close> and \<^verbatim>\<open>Version\<close>.
\<close>

record GroupVersionResource =
  gvr_Group :: string
  gvr_Version :: string
  gvr_Resource :: string

record GroupVersionKind =
  gvk_Group :: string
  gvk_Version :: string
  gvk_Kind :: string

record GroupResource =
  gr_Group :: string
  gr_Resource :: string

record GroupKind =
  gk_Group :: string
  gk_Kind :: string

text \<open>\<^verbatim>\<open>meta.RESTScope\<close>: a resource type is partitioned by namespace or cluster-wide.\<close>

datatype RESTScope = RESTScopeNamespace | RESTScopeRoot

text \<open>\<^verbatim>\<open>meta.RESTMapping\<close>, the resolved output.\<close>

record RESTMapping =
  Resource :: GroupVersionResource
  GroupVersionKind :: GroupVersionKind
  Scope :: RESTScope

text \<open>
  Go's \<^verbatim>\<open>error\<close> values, as far as \<^verbatim>\<open>mappingFor\<close> tells them apart. The index
  reports a no-match condition as \<^verbatim>\<open>*meta.NoKindMatchError\<close> or
  \<^verbatim>\<open>*meta.NoResourceMatchError\<close>; \<open>OtherError\<close> is any other failure of the index
  (connectivity, discovery), identified by its message. \<open>Errorf\<close> is an error made by
  \<^verbatim>\<open>fmt.Errorf\<close>: the format string and its arguments, not rendered.
\<close>

datatype error =
    NoKindMatchError GroupKind "string list"
  | NoResourceMatchError GroupVersionResource
  | OtherError string
  | Errorf string "string list"

text \<open>The zero value \<^verbatim>\<open>schema.GroupVersionKind{}\<close>.\<close>

definition GroupVersionKind_zero :: GroupVersionKind where
  "GroupVersionKind_zero = \<lparr>gvk_Group = [], gvk_Version = [], gvk_Kind = []\<rparr>"

text \<open>\<^verbatim>\<open>GroupVersionKind.Empty\<close>: all three fields have length 0.\<close>

definition gvk_Empty :: "GroupVersionKind \<Rightarrow> bool" where
  "gvk_Empty gvk \<longleftrightarrow>
     length (gvk_Group gvk) = 0 \<and> length (gvk_Version gvk) = 0 \<and> length (gvk_Kind gvk) = 0"

text \<open>\<^verbatim>\<open>GroupVersionKind.GroupKind\<close>.\<close>

definition gvk_GroupKind :: "GroupVersionKind \<Rightarrow> GroupKind" where
  "gvk_GroupKind gvk = \<lparr>gk_Group = gvk_Group gvk, gk_Kind = gvk_Kind gvk\<rparr>"

text \<open>\<^verbatim>\<open>GroupResource.WithVersion\<close> and \<^verbatim>\<open>GroupKind.WithVersion\<close>.\<close>

definition gr_WithVersion :: "GroupResource \<Rightarrow> string \<Rightarrow> GroupVersionResource" where
  "gr_WithVersion gr version =
     \<lparr>gvr_Group = gr_Group gr, gvr_Version = version, gvr_Resource = gr_Resource gr\<rparr>"

definition gk_WithVersion :: "GroupKind \<Rightarrow> string \<Rightarrow> GroupVersionKind" where
  "gk_WithVersion gk version =
     \<lparr>gvk_Group = gk_Group gk, gvk_Version = version, gvk_Kind = gk_Kind gk\<rparr>"

text \<open>\<^verbatim>\<open>meta.IsNoMatchError\<close>, on a non-nil error.\<close>

fun IsNoMatchError :: "error \<Rightarrow> bool" where
  "IsNoMatchError (NoKindMatchError gk versions) = True"
| "IsNoMatchError (NoResourceMatchError gvr) = True"
| "IsNoMatchError (OtherError msg) = False"
| "IsNoMatchError (Errorf format args) = False"

section \<open>Token parser\<close>

text \<open>
  Modelled from the spec: \<^verbatim>\<open>schema.ParseResourceArg\<close> and \<^verbatim>\<open>schema.ParseKindArg\<close>
  belong to the client library and are not among the repository's sources. The spec has
  them recognise \<^verbatim>\<open>resource\<close>, \<^verbatim>\<open>resource.group\<close> and a three-part form in which,
  reading right to left, the rightmost dot-segments are the group and the next one is the
  version, which leaves the leftmost segment as the resource (or kind); a token that is not
  such a triple gives only the GroupResource (GroupKind) half. The parser never fails.

  \<open>dots\<close> counts the dots of a token, \<open>beforeDot\<close> is the text before the first dot (the
  whole token when it has none) and \<open>afterDot\<close> the text after it.
\<close>

definition dots :: "string \<Rightarrow> nat" where
  "dots arg = length (filter (\<lambda>c. c = CHR ''.'') arg)"

definition beforeDot :: "string \<Rightarrow> string" where
  "beforeDot arg = takeWhile (\<lambda>c. c \<noteq> CHR ''.'') arg"

definition afterDot :: "string \<Rightarrow> string" where
  "afterDot arg = drop 1 (dropWhile (\<lambda>c. c \<noteq> CHR ''.'') arg)"

definition ParseGroupResource :: "string \<Rightarrow> GroupResource" where
  "ParseGroupResource arg = \<lparr>gr_Group = afterDot arg, gr_Resource = beforeDot arg\<rparr>"

definition ParseGroupKind :: "string \<Rightarrow> GroupKind" where
  "ParseGroupKind arg = \<lparr>gk_Group = afterDot arg, gk_Kind = beforeDot arg\<rparr>"

definition ParseResourceArg :: "string \<Rightarrow> GroupVersionResource option \<times> GroupResource" where
  "ParseResourceArg arg =
     (if 2 \<le> dots arg
      then Some \<lparr>gvr_Group = afterDot (afterDot arg),
                 gvr_Version = beforeDot (afterDot arg),
                 gvr_Resource = beforeDot arg\<rparr>
      else None,
      ParseGroupResource arg)"

definition ParseKindArg :: "string \<Rightarrow> GroupVersionKind option \<times> GroupKind" where
  "ParseKindArg arg =
     (if 2 \<le> dots arg
      then Some \<lparr>gvk_Group = afterDot (afterDot arg),
                 gvk_Version = beforeDot (afterDot arg),
                 gvk_Kind = beforeDot arg\<rparr>
      else None,
      ParseGroupKind arg)"

section \<open>Capability Index\<close>

text \<open>
  \<^verbatim>\<open>meta.RESTMapper\<close> is an interface; \<^verbatim>\<open>mappingFor\<close> receives an implementation and
  calls two of its methods. A method call may read and change whatever state \<open>'s\<close> the
  implementation keeps, so each method takes the state and returns the new one beside its
  Go results. \<^verbatim>\<open>KindFor\<close> returns \<^verbatim>\<open>(GroupVersionKind, error)\<close>; \<^verbatim>\<open>RESTMapping\<close>
  returns \<^verbatim>\<open>(*RESTMapping, error)\<close>, a pointer that may be nil and an error that may
  be nil.
\<close>

record 's RESTMapper =
  KindFor :: "GroupVersionResource \<Rightarrow> 's \<Rightarrow> (GroupVersionKind \<times> error option) \<times> 's"
  RESTMapping :: "GroupKind \<Rightarrow> string \<Rightarrow> 's \<Rightarrow> (RESTMapping option \<times> error option) \<times> 's"

section \<open>The resolver\<close>

text \<open>
  The first lines of both \<^verbatim>\<open>mappingFor\<close> functions
  (\<^verbatim>\<open>api/services/resourceSvc.go\<close> 125 to 133, \<^verbatim>\<open>restmapper/restmapper.go\<close> 140 to
  157): parse the token as a resource, ask \<^verbatim>\<open>KindFor\<close> for the fully specified
  resource when there is one, and for the group and resource with an empty version while
  the kind is still empty. The error of either \<^verbatim>\<open>KindFor\<close> call is dropped (the service
  assigns it to \<^verbatim>\<open>_\<close>, the example prints a warning, which is not modelled).
  The result is the parsed GroupResource, the kind, and the state of the index.
\<close>

definition kindForSteps ::
  "string \<Rightarrow> 's RESTMapper \<Rightarrow> 's \<Rightarrow> GroupResource \<times> GroupVersionKind \<times> 's" where
  "kindForSteps resourceOrKindArg restMapper s0 =
     (case ParseResourceArg resourceOrKindArg of (fullySpecifiedGVR, groupResource) \<Rightarrow>
        (case (case fullySpecifiedGVR of
                 Some gvr \<Rightarrow> (case KindFor restMapper gvr s0 of ((gvk, _), s1) \<Rightarrow> (gvk, s1))
               | None \<Rightarrow> (GroupVersionKind_zero, s0)) of
           (gvk, s1) \<Rightarrow>
             if gvk_Empty gvk
             then (case KindFor restMapper (gr_WithVersion groupResource []) s1 of
                     ((gvk, _), s2) \<Rightarrow> (groupResource, gvk, s2))
             else (groupResource, gvk, s1)))"

text \<open>
  Lines 138 to 148 of \<^verbatim>\<open>api/services/resourceSvc.go\<close>, reached when the kind is
  still empty: parse the token as a kind; when the parse gives no fully specified kind,
  take the parsed GroupKind with an empty version in its place; unless that kind is empty,
  ask \<^verbatim>\<open>RESTMapping\<close> for it. The result is the parsed GroupKind, the mapping pointer to
  return at once (\<open>Some\<close>) when the lookup was made and gave no error, and the state of
  the index. An error of this lookup is dropped.
\<close>

definition directAttempt ::
  "string \<Rightarrow> 's RESTMapper \<Rightarrow> 's \<Rightarrow> GroupKind \<times> RESTMapping option option \<times> 's" where
  "directAttempt resourceOrKindArg restMapper s2 =
     (case ParseKindArg resourceOrKindArg of (parsedGVK, groupKind) \<Rightarrow>
        let fullySpecifiedGVK =
              (case parsedGVK of None \<Rightarrow> gk_WithVersion groupKind [] | Some g \<Rightarrow> g)
        in if \<not> gvk_Empty fullySpecifiedGVK
           then (case RESTMapping restMapper (gvk_GroupKind fullySpecifiedGVK)
                        (gvk_Version fullySpecifiedGVK) s2 of
                   ((mapping, err), s3) \<Rightarrow>
                     (groupKind, if err = None then Some mapping else None, s3))
           else (groupKind, None, s2))"

text \<open>
  \<^verbatim>\<open>(*ResourceService).mappingFor\<close> of \<^verbatim>\<open>api/services/resourceSvc.go\<close>. The
  receiver is not used by the body and is left out. The result is Go's pair of a mapping
  pointer and an error, beside the state of the index after the call. In the last lookup
  \<^verbatim>\<open>gvk\<close> is the variable of line 126 (line 140 declares another one in an inner
  block).
\<close>

definition mappingFor ::
  "string \<Rightarrow> 's RESTMapper \<Rightarrow> 's \<Rightarrow> (RESTMapping option \<times> error option) \<times> 's" where
  "mappingFor resourceOrKindArg restMapper s0 =
     (if resourceOrKindArg = []
      then ((None, Some (Errorf ''resource type cannot be empty'' [])), s0)
      else
        (case kindForSteps resourceOrKindArg restMapper s0 of (groupResource, gvk, s2) \<Rightarrow>
           if \<not> gvk_Empty gvk
           then RESTMapping restMapper (gvk_GroupKind gvk) (gvk_Version gvk) s2
           else
             (case directAttempt resourceOrKindArg restMapper s2 of
                (groupKind, Some mapping, s3) \<Rightarrow> ((mapping, None), s3)
              | (groupKind, None, s3) \<Rightarrow>
                  (case RESTMapping restMapper groupKind (gvk_Version gvk) s3 of
                     ((mapping, Some err), s4) \<Rightarrow>
                       if IsNoMatchError err
                       then ((None,
                              Some (Errorf ''the server doesn't have a resource type %q''
                                      [gr_Resource groupResource])), s4)
                       else ((None, Some err), s4)
                   | ((mapping, None), s4) \<Rightarrow> ((mapping, None), s4)))))"

text \<open>
  \<^verbatim>\<open>mappingFor\<close> of the standalone example \<^verbatim>\<open>restmapper/restmapper.go\<close>. Its
  console output is not modelled.
\<close>

definition restmapper_mappingFor ::
  "string \<Rightarrow> 's RESTMapper \<Rightarrow> 's \<Rightarrow> (RESTMapping option \<times> error option) \<times> 's" where
  "restmapper_mappingFor resourceOrKindArg restMapper s0 =
     (case kindForSteps resourceOrKindArg restMapper s0 of (groupResource, gvk, s2) \<Rightarrow>
        if \<not> gvk_Empty gvk
        then RESTMapping restMapper (gvk_GroupKind gvk) (gvk_Version gvk) s2
        else RESTMapping restMapper
               \<lparr>gk_Group = gr_Group groupResource, gk_Kind = gr_Resource groupResource\<rparr> [] s2)"

section \<open>Observing the queries\<close>

text \<open>
  A query against the index, and an index that records every query it receives: it wraps
  an index, answers as the wrapped one does, and appends the query to a log kept beside
  the wrapped state. The log of a call started with an empty log is the sequence of
  queries the call issued.
\<close>

datatype query =
    QKindFor GroupVersionResource
  | QRESTMapping GroupKind string

definition recording :: "'s RESTMapper \<Rightarrow> ('s \<times> query list) RESTMapper" where
  "recording restMapper =
     \<lparr>KindFor = (\<lambda>gvr (s, log).
        (case KindFor restMapper gvr s of (r, s') \<Rightarrow> (r, (s', log @ [QKindFor gvr])))),
      RESTMapping = (\<lambda>gk version (s, log).
        (case RESTMapping restMapper gk version s of
           (r, s') \<Rightarrow> (r, (s', log @ [QRESTMapping gk version]))))\<rparr>"

text \<open>The queries a call of \<^verbatim>\<open>mappingFor\<close> issues against an index in state \<open>s\<close>.\<close>

definition queries :: "string \<Rightarrow> 's RESTMapper \<Rightarrow> 's \<Rightarrow> query list" where
  "queries resourceOrKindArg restMapper s =
     snd (snd (mappingFor resourceOrKindArg (recording restMapper) (s, [])))"

text \<open>The queries that the first lines, up to the second \<^verbatim>\<open>KindFor\<close>, issue.\<close>

definition kindForQueries :: "string \<Rightarrow> 's RESTMapper \<Rightarrow> 's \<Rightarrow> query list" where
  "kindForQueries resourceOrKindArg restMapper s =
     snd (snd (snd (kindForSteps resourceOrKindArg (recording restMapper) (s, []))))"

text \<open>The queries that lines 138 to 148 issue: the direct lookup, or none.\<close>

definition directAttemptQueries :: "string \<Rightarrow> 's RESTMapper \<Rightarrow> 's \<Rightarrow> query list" where
  "directAttemptQueries resourceOrKindArg restMapper s =
     snd (snd (snd (directAttempt resourceOrKindArg (recording restMapper) (s, []))))"

section \<open>Example indexes\<close>

text \<open>
  Three implementations of the interface, for the examples below. \<open>tableIndex\<close> answers
  from a table of registered mappings and never changes its state: \<^verbatim>\<open>KindFor\<close> finds
  the first entry with the group and resource asked for, \<^verbatim>\<open>RESTMapping\<close> the first
  with the group and kind asked for, an empty version matching any; a lookup that finds
  nothing fails with the no-match error of its kind.
\<close>

definition tableIndex :: "RESTMapping list \<Rightarrow> 's RESTMapper" where
  "tableIndex table =
     \<lparr>KindFor = (\<lambda>gvr s.
        (case find (\<lambda>m. gvr_Group (Resource m) = gvr_Group gvr
                        \<and> gvr_Resource (Resource m) = gvr_Resource gvr
                        \<and> (gvr_Version gvr = [] \<or> gvr_Version (Resource m) = gvr_Version gvr))
                table of
           Some m \<Rightarrow> ((GroupVersionKind m, None), s)
         | None \<Rightarrow> ((GroupVersionKind_zero, Some (NoResourceMatchError gvr)), s))),
      RESTMapping = (\<lambda>gk version s.
        (case find (\<lambda>m. gvk_GroupKind (GroupVersionKind m) = gk
                        \<and> (version = [] \<or> gvk_Version (GroupVersionKind m) = version))
                table of
           Some m \<Rightarrow> ((Some m, None), s)
         | None \<Rightarrow> ((None, Some (NoKindMatchError gk [version])), s)))\<rparr>"

text \<open>\<open>constIndex\<close> gives every \<^verbatim>\<open>KindFor\<close> query one answer and every
  \<^verbatim>\<open>RESTMapping\<close> query another, and never changes its state.\<close>

definition constIndex ::
  "GroupVersionKind \<times> error option \<Rightarrow> RESTMapping option \<times> error option \<Rightarrow> 's RESTMapper" where
  "constIndex kindAnswer mappingAnswer =
     \<lparr>KindFor = (\<lambda>gvr s. (kindAnswer, s)),
      RESTMapping = (\<lambda>gk version s. (mappingAnswer, s))\<rparr>"

text \<open>
  \<open>warmingIndex\<close> counts the queries it has answered in its state. It knows no resource;
  its \<^verbatim>\<open>RESTMapping\<close> times out until two queries have been answered and then returns
  the given mapping.
\<close>

definition warmingIndex :: "RESTMapping \<Rightarrow> nat RESTMapper" where
  "warmingIndex m =
     \<lparr>KindFor = (\<lambda>gvr n. ((GroupVersionKind_zero, Some (NoResourceMatchError gvr)), Suc n)),
      RESTMapping = (\<lambda>gk version n.
        (if n < 2 then (None, Some (OtherError ''timeout'')) else (Some m, None), Suc n))\<rparr>"

text \<open>The mappings of the examples: pods in the core group, deployments in \<^verbatim>\<open>apps\<close>,
  and an entry for the kind \<^verbatim>\<open>Pod\<close> whose resource name is empty.\<close>

definition podsMapping :: RESTMapping where
  "podsMapping =
     \<lparr>Resource = \<lparr>gvr_Group = [], gvr_Version = ''v1'', gvr_Resource = ''pods''\<rparr>,
      GroupVersionKind = \<lparr>gvk_Group = [], gvk_Version = ''v1'', gvk_Kind = ''Pod''\<rparr>,
      Scope = RESTScopeNamespace\<rparr>"

definition deploymentsMapping :: RESTMapping where
  "deploymentsMapping =
     \<lparr>Resource = \<lparr>gvr_Group = ''apps'', gvr_Version = ''v1'', gvr_Resource = ''deployments''\<rparr>,
      GroupVersionKind = \<lparr>gvk_Group = ''apps'', gvk_Version = ''v1'', gvk_Kind = ''Deployment''\<rparr>,
      Scope = RESTScopeNamespace\<rparr>"

definition unnamedMapping :: RESTMapping where
  "unnamedMapping =
     \<lparr>Resource = \<lparr>gvr_Group = [], gvr_Version = ''v1'', gvr_Resource = []\<rparr>,
      GroupVersionKind = \<lparr>gvk_Group = [], gvk_Version = ''v1'', gvk_Kind = ''Pod''\<rparr>,
      Scope = RESTScopeNamespace\<rparr>"

section \<open>Evaluation\<close>

text \<open>The definitions that the examples unfold, by group.\<close>

lemmas parser_defs =
  dots_def beforeDot_def afterDot_def ParseGroupResource_def ParseGroupKind_def
  ParseResourceArg_def ParseKindArg_def

lemmas identity_defs =
  GroupVersionKind_zero_def gvk_Empty_def gvk_GroupKind_def gr_WithVersion_def gk_WithVersion_def

lemmas resolver_defs = kindForSteps_def directAttempt_def mappingFor_def

lemmas observer_defs = recording_def queries_def kindForQueries_def directAttemptQueries_def

lemmas example_defs =
  tableIndex_def constIndex_def podsMapping_def deploymentsMapping_def

section \<open>The recording index is transparent\<close>

text \<open>
  A recording index answers as the index it wraps and leaves that index's state as the
  call on the bare index does; the log grows by the queries of the call.
\<close>

lemma KindFor_recording:
  "KindFor (recording restMapper) gvr (s, log) =
     (fst (KindFor restMapper gvr s), (snd (KindFor restMapper gvr s), log @ [QKindFor gvr]))"
  by (simp add: recording_def case_prod_beta)

lemma RESTMapping_recording:
  "RESTMapping (recording restMapper) gk version (s, log) =
     (fst (RESTMapping restMapper gk version s),
      (snd (RESTMapping restMapper gk version s), log @ [QRESTMapping gk version]))"
  by (simp add: recording_def case_prod_beta)

lemma kindForSteps_recording:
  "kindForSteps tok (recording restMapper) (s, log) =
     (fst (kindForSteps tok restMapper s), fst (snd (kindForSteps tok restMapper s)),
      (snd (snd (kindForSteps tok restMapper s)), log @ kindForQueries tok restMapper s))"
  by (cases "fst (ParseResourceArg tok)")
     (simp_all add: kindForSteps_def kindForQueries_def KindFor_recording case_prod_beta)

lemma directAttempt_recording:
  "directAttempt tok (recording restMapper) (s, log) =
     (fst (directAttempt tok restMapper s), fst (snd (directAttempt tok restMapper s)),
      (snd (snd (directAttempt tok restMapper s)),
       log @ directAttemptQueries tok restMapper s))"
  by (simp add: directAttempt_def directAttemptQueries_def RESTMapping_recording
        case_prod_beta Let_def)

lemma mappingFor_recording:
  "mappingFor tok (recording restMapper) (s, log) =
     (fst (mappingFor tok restMapper s),
      (snd (mappingFor tok restMapper s), log @ queries tok restMapper s))"
proof (cases "tok = []")
  case True
  then show ?thesis by (simp add: mappingFor_def queries_def)
next
  case False
  show ?thesis
  proof (cases "gvk_Empty (fst (snd (kindForSteps tok restMapper s)))")
    case False
    with \<open>tok \<noteq> []\<close> show ?thesis
      by (simp add: mappingFor_def queries_def kindForSteps_recording RESTMapping_recording
            case_prod_beta)
  next
    case True
    show ?thesis
    proof (cases "fst (snd (directAttempt tok restMapper (snd (snd (kindForSteps tok restMapper s)))))")
      case (Some m)
      with True \<open>tok \<noteq> []\<close> show ?thesis
        by (simp add: mappingFor_def queries_def kindForSteps_recording
              directAttempt_recording case_prod_beta)
    next
      case None
      with True \<open>tok \<noteq> []\<close> show ?thesis
        by (simp add: mappingFor_def queries_def kindForSteps_recording
              directAttempt_recording RESTMapping_recording
              case_prod_beta split: option.splits)
    qed
  qed
qed

section \<open>The paths of the resolver\<close>

text \<open>
  After the guard on the empty token a call takes one of three paths: the kind was resolved
  by \<^verbatim>\<open>KindFor\<close> (line 135), the direct lookup returned at once (line 146), or the
  last lookup decided (lines 150 to 158). Each path has its result and its queries.
\<close>

lemma gvk_Empty_Version: "gvk_Empty gvk \<Longrightarrow> gvk_Version gvk = []"
  by (simp add: gvk_Empty_def)

lemma GroupKind_of_WithVersion: "gvk_GroupKind (gk_WithVersion gk version) = gk"
  by (cases gk) (simp add: gvk_GroupKind_def gk_WithVersion_def)

lemma Version_of_WithVersion: "gvk_Version (gk_WithVersion gk version) = version"
  by (simp add: gk_WithVersion_def)

lemma directAttempt_groupKind: "fst (directAttempt tok restMapper s) = ParseGroupKind tok"
  by (simp add: directAttempt_def ParseKindArg_def case_prod_beta Let_def)

lemma kindForSteps_groupResource: "fst (kindForSteps tok restMapper s) = ParseGroupResource tok"
  by (simp add: kindForSteps_def ParseResourceArg_def case_prod_beta)

lemma queries_empty: "queries [] restMapper s = []"
  by (simp add: queries_def mappingFor_def)

lemma length_kindForQueries:
  "length (kindForQueries tok restMapper s) \<le> 2"
  "dots tok < 2 \<Longrightarrow> length (kindForQueries tok restMapper s) \<le> 1"
  by (simp_all add: kindForQueries_def kindForSteps_def ParseResourceArg_def KindFor_recording
        case_prod_beta)

lemma length_directAttemptQueries: "length (directAttemptQueries tok restMapper s) \<le> 1"
  by (simp add: directAttemptQueries_def directAttempt_def RESTMapping_recording
        case_prod_beta Let_def)

lemma mappingFor_resolved:
  assumes "tok \<noteq> []" and "kindForSteps tok restMapper s = (gr, gvk, s2)"
    and "\<not> gvk_Empty gvk"
  shows "mappingFor tok restMapper s =
           RESTMapping restMapper (gvk_GroupKind gvk) (gvk_Version gvk) s2"
  using assms by (simp add: mappingFor_def)

lemma mappingFor_direct:
  assumes "tok \<noteq> []" and "kindForSteps tok restMapper s = (gr, gvk, s2)"
    and "gvk_Empty gvk" and "directAttempt tok restMapper s2 = (gk, Some mapping, s3)"
  shows "mappingFor tok restMapper s = ((mapping, None), s3)"
  using assms by (simp add: mappingFor_def)

lemma mappingFor_terminal:
  assumes "tok \<noteq> []" and "kindForSteps tok restMapper s = (gr, gvk, s2)"
    and "gvk_Empty gvk" and "directAttempt tok restMapper s2 = (gk, None, s3)"
    and "RESTMapping restMapper gk [] s3 = ((mapping, err), s4)"
  shows "mappingFor tok restMapper s =
           (case err of
              None \<Rightarrow> ((mapping, None), s4)
            | Some e \<Rightarrow>
                ((None, Some (if IsNoMatchError e
                              then Errorf ''the server doesn't have a resource type %q''
                                     [gr_Resource gr]
                              else e)), s4))"
  using assms by (simp add: mappingFor_def gvk_Empty_Version split: option.splits)

lemma queries_resolved:
  assumes "tok \<noteq> []" and "kindForSteps tok restMapper s = (gr, gvk, s2)"
    and "\<not> gvk_Empty gvk"
  shows "queries tok restMapper s =
           kindForQueries tok restMapper s @ [QRESTMapping (gvk_GroupKind gvk) (gvk_Version gvk)]"
  using assms
  by (simp add: queries_def mappingFor_def kindForSteps_recording RESTMapping_recording)

lemma queries_direct:
  assumes "tok \<noteq> []" and "kindForSteps tok restMapper s = (gr, gvk, s2)"
    and "gvk_Empty gvk" and "directAttempt tok restMapper s2 = (gk, Some mapping, s3)"
  shows "queries tok restMapper s =
           kindForQueries tok restMapper s @ directAttemptQueries tok restMapper s2"
  using assms
  by (simp add: queries_def mappingFor_def kindForSteps_recording directAttempt_recording)

lemma queries_terminal:
  assumes "tok \<noteq> []" and "kindForSteps tok restMapper s = (gr, gvk, s2)"
    and "gvk_Empty gvk" and "directAttempt tok restMapper s2 = (gk, None, s3)"
  shows "queries tok restMapper s =
           kindForQueries tok restMapper s @ directAttemptQueries tok restMapper s2
             @ [QRESTMapping gk []]"
  using assms
  by (simp add: queries_def mappingFor_def kindForSteps_recording directAttempt_recording
        RESTMapping_recording gvk_Empty_Version case_prod_beta split: option.splits)

section \<open>Number of queries\<close>

text \<open>
  C1. For every token, every index and every state of it, one call of
  \<^verbatim>\<open>mappingFor\<close> issues at most four queries against the index, counting each
  \<^verbatim>\<open>KindFor\<close> and each \<^verbatim>\<open>RESTMapping\<close> call, and at most three when the token has
  fewer than two dots.
\<close>

theorem mappingFor_query_bound:
  "length (queries tok restMapper s) \<le> 4
   \<and> (dots tok < 2 \<longrightarrow> length (queries tok restMapper s) \<le> 3)"
proof (cases "tok = []")
  case True
  then show ?thesis by (simp add: queries_empty)
next
  case False
  obtain gr gvk s2 where k: "kindForSteps tok restMapper s = (gr, gvk, s2)"
    by (cases "kindForSteps tok restMapper s") auto
  obtain gk r s3 where d: "directAttempt tok restMapper s2 = (gk, r, s3)"
    by (cases "directAttempt tok restMapper s2") auto
  note lk = length_kindForQueries [of tok restMapper s]
  note ld = length_directAttemptQueries [of tok restMapper s2]
  show ?thesis
  proof (cases "gvk_Empty gvk")
    case False
    with \<open>tok \<noteq> []\<close> k lk show ?thesis by (simp add: queries_resolved)
  next
    case True
    show ?thesis
    proof (cases r)
      case None
      with True \<open>tok \<noteq> []\<close> k d have
        "queries tok restMapper s =
           kindForQueries tok restMapper s @ directAttemptQueries tok restMapper s2
             @ [QRESTMapping gk []]"
        by (simp add: queries_terminal)
      with lk ld show ?thesis by auto
    next
      case (Some mapping)
      with True \<open>tok \<noteq> []\<close> k d have
        "queries tok restMapper s =
           kindForQueries tok restMapper s @ directAttemptQueries tok restMapper s2"
        by (simp add: queries_direct)
      with lk ld show ?thesis by auto
    qed
  qed
qed

text \<open>The token \<^verbatim>\<open>Pod\<close> has no dot, and its call stays within three queries.\<close>

theorem mappingFor_query_bound_witness:
  "dots ''Pod'' < 2 \<and> length (queries ''Pod'' (tableIndex [podsMapping]) ()) \<le> 3"
  using mappingFor_query_bound [of "''Pod''" "tableIndex [podsMapping]" "()"]
  by (simp add: dots_def)

text \<open>
  A bound of three fails: for \<^verbatim>\<open>deployments.v1.apps\<close> against an index that only
  knows pods, both \<^verbatim>\<open>KindFor\<close> lookups, the direct lookup and the last lookup are made.
\<close>

theorem mappingFor_four_queries:
  "\<not> length (queries ''deployments.v1.apps'' (tableIndex [podsMapping]) ()) \<le> 3"
  by (simp add: parser_defs identity_defs resolver_defs observer_defs example_defs)

section \<open>The service and the example\<close>

lemma directAttempt_simple_token:
  assumes "dots tok < 2"
    and "RESTMapping restMapper (ParseGroupKind tok) [] s2 = ((mapping, None), s3)"
  shows "directAttempt tok restMapper s2 = (ParseGroupKind tok, Some mapping, s3)
         \<or> directAttempt tok restMapper s2 = (ParseGroupKind tok, None, s2)"
  using assms
  by (simp add: directAttempt_def ParseKindArg_def gvk_GroupKind_def gk_WithVersion_def
        ParseGroupKind_def Let_def)

lemma example_groupKind:
  assumes "kindForSteps tok restMapper s = (gr, gvk, s2)"
  shows "\<lparr>gk_Group = gr_Group gr, gk_Kind = gr_Resource gr\<rparr> = ParseGroupKind tok"
proof -
  from assms kindForSteps_groupResource [of tok restMapper s]
  have "gr = ParseGroupResource tok" by simp
  then show ?thesis by (simp add: ParseGroupResource_def ParseGroupKind_def)
qed

text \<open>
  C2. The two \<^verbatim>\<open>mappingFor\<close> functions share the \<^verbatim>\<open>KindFor\<close> steps and are not
  copies of each other. For every non-empty token they return the same result, and leave
  the index in the same state, when these steps resolve a non-empty kind; and when the kind
  stays empty, the token has fewer than two dots and the lookup of the parsed GroupKind
  with an empty version gives no error, both return the mapping of that lookup. Beyond
  that they differ. When the kind stays empty the example returns, for every token, the
  answer of the one lookup of the parsed GroupKind with an empty version as the index gave
  it. The service returns the mapping of its direct lookup of the fully specified kind
  when that gives no error, and turns a no-match error of its last lookup into its own
  error. On the empty token the service returns its guard's error without a query, and the
  example asks the index.
\<close>

theorem mappingFor_agrees_with_example:
  assumes "tok \<noteq> []" and "kindForSteps tok restMapper s = (gr, gvk, s2)"
  shows "(\<not> gvk_Empty gvk \<longrightarrow>
            mappingFor tok restMapper s = restmapper_mappingFor tok restMapper s)
         \<and> (gvk_Empty gvk \<and> dots tok < 2
              \<and> RESTMapping restMapper (ParseGroupKind tok) [] s2 = ((mapping, None), s3) \<longrightarrow>
            mappingFor tok restMapper s = ((mapping, None), s3)
            \<and> restmapper_mappingFor tok restMapper s = ((mapping, None), s3))
         \<and> (gvk_Empty gvk \<longrightarrow>
              restmapper_mappingFor tok restMapper s
                = RESTMapping restMapper (ParseGroupKind tok) [] s2)
         \<and> (gvk_Empty gvk \<and> ParseKindArg tok = (Some fullGVK, gk) \<and> \<not> gvk_Empty fullGVK
              \<and> RESTMapping restMapper (gvk_GroupKind fullGVK) (gvk_Version fullGVK) s2
                  = ((direct, None), sa) \<longrightarrow>
            mappingFor tok restMapper s = ((direct, None), sa))
         \<and> (gvk_Empty gvk \<and> directAttempt tok restMapper s2 = (gk', None, sb)
              \<and> RESTMapping restMapper gk' [] sb = ((lost, Some e), sc)
              \<and> IsNoMatchError e \<longrightarrow>
            mappingFor tok restMapper s =
              ((None, Some (Errorf ''the server doesn't have a resource type %q''
                              [beforeDot tok])), sc))
         \<and> mappingFor [] restMapper s
             = ((None, Some (Errorf ''resource type cannot be empty'' [])), s)
         \<and> restmapper_mappingFor [] restMapper s
             = (case KindFor restMapper \<lparr>gvr_Group = [], gvr_Version = [], gvr_Resource = []\<rparr> s of
                  ((k, _), s1) \<Rightarrow>
                    if gvk_Empty k
                    then RESTMapping restMapper \<lparr>gk_Group = [], gk_Kind = []\<rparr> [] s1
                    else RESTMapping restMapper (gvk_GroupKind k) (gvk_Version k) s1)"
    (is "(?resolved \<longrightarrow> ?same) \<and> (?simple \<longrightarrow> ?both) \<and> (?unresolved \<longrightarrow> ?single)
         \<and> (?directly \<longrightarrow> ?early) \<and> (?nomatch \<longrightarrow> ?translated) \<and> ?guard \<and> ?asks")
proof -
  note gk = example_groupKind [OF assms(2)]
  have "?same" if "?resolved"
    using that assms by (simp add: mappingFor_def restmapper_mappingFor_def)
  moreover have single: "?single" if "?unresolved"
    using that assms(2) gk by (simp add: restmapper_mappingFor_def)
  moreover have "?both" if h: "?simple"
  proof -
    from h directAttempt_simple_token [of tok restMapper s2 mapping s3]
    consider "directAttempt tok restMapper s2 = (ParseGroupKind tok, Some mapping, s3)"
      | "directAttempt tok restMapper s2 = (ParseGroupKind tok, None, s2)"
      by blast
    then have "mappingFor tok restMapper s = ((mapping, None), s3)"
    proof cases
      case 1
      with assms h show ?thesis by (simp add: mappingFor_direct)
    next
      case 2
      with assms h
        mappingFor_terminal
          [of tok restMapper s gr gvk s2 "ParseGroupKind tok" s2 mapping None s3]
      show ?thesis by simp
    qed
    with h single show ?thesis by simp
  qed
  moreover have "?early" if h: "?directly"
  proof -
    from h have "directAttempt tok restMapper s2 = (gk, Some direct, sa)"
      by (simp add: directAttempt_def)
    with assms h show ?thesis by (simp add: mappingFor_direct)
  qed
  moreover have "?translated" if h: "?nomatch"
  proof -
    from assms(2) kindForSteps_groupResource [of tok restMapper s]
    have "gr_Resource gr = beforeDot tok" by (simp add: ParseGroupResource_def)
    with assms h show ?thesis by (simp add: mappingFor_terminal)
  qed
  moreover have "?guard" by (simp add: mappingFor_def)
  moreover have "?asks"
    by (simp add: restmapper_mappingFor_def kindForSteps_def parser_defs identity_defs
          case_prod_beta)
  ultimately show ?thesis by blast
qed

text \<open>
  On a table with pods and deployments: \<^verbatim>\<open>pods\<close> is resolved by \<^verbatim>\<open>KindFor\<close>;
  \<^verbatim>\<open>Pod\<close> by the lookup of the kind, in both functions; for
  \<^verbatim>\<open>Deployment.v1.apps\<close> the service returns the mapping of its direct lookup and the
  example the no-match error of its one lookup; for \<^verbatim>\<open>nonexistentthing\<close> the service
  returns its own error and the example the error of the index.
\<close>

theorem mappingFor_agrees_with_example_witness:
  "mappingFor ''pods'' (tableIndex [podsMapping, deploymentsMapping]) ()
     = restmapper_mappingFor ''pods'' (tableIndex [podsMapping, deploymentsMapping]) ()
   \<and> mappingFor ''Pod'' (tableIndex [podsMapping, deploymentsMapping]) ()
       = ((Some podsMapping, None), ())
   \<and> restmapper_mappingFor ''Pod'' (tableIndex [podsMapping, deploymentsMapping]) ()
       = ((Some podsMapping, None), ())
   \<and> mappingFor ''Deployment.v1.apps'' (tableIndex [podsMapping, deploymentsMapping]) ()
       = ((Some deploymentsMapping, None), ())
   \<and> restmapper_mappingFor ''Deployment.v1.apps''
         (tableIndex [podsMapping, deploymentsMapping]) ()
       = ((None, Some (NoKindMatchError \<lparr>gk_Group = ''v1.apps'', gk_Kind = ''Deployment''\<rparr>
                         [[]])), ())
   \<and> mappingFor ''nonexistentthing'' (tableIndex [podsMapping, deploymentsMapping]) ()
       = ((None, Some (Errorf ''the server doesn't have a resource type %q''
                         [''nonexistentthing''])), ())
   \<and> restmapper_mappingFor ''nonexistentthing''
         (tableIndex [podsMapping, deploymentsMapping]) ()
       = ((None, Some (NoKindMatchError \<lparr>gk_Group = [], gk_Kind = ''nonexistentthing''\<rparr>
                         [[]])), ())"
proof -
  let ?idx = "tableIndex [podsMapping, deploymentsMapping] :: unit RESTMapper"
  let ?full = "\<lparr>gvk_Group = ''apps'', gvk_Version = ''v1'', gvk_Kind = ''Deployment''\<rparr>"
  let ?gkD = "\<lparr>gk_Group = ''v1.apps'', gk_Kind = ''Deployment''\<rparr>"
  let ?gkN = "\<lparr>gk_Group = [], gk_Kind = ''nonexistentthing''\<rparr>"
  have z: "gvk_Empty GroupVersionKind_zero" by (simp add: identity_defs)
  have k1: "kindForSteps ''pods'' ?idx () =
              (ParseGroupResource ''pods'', GroupVersionKind podsMapping, ())"
    by (simp add: parser_defs identity_defs resolver_defs example_defs)
  have e1: "\<not> gvk_Empty (GroupVersionKind podsMapping)"
    by (simp add: identity_defs example_defs)
  have k2: "kindForSteps ''Pod'' ?idx () =
              (ParseGroupResource ''Pod'', GroupVersionKind_zero, ())"
    by (simp add: parser_defs identity_defs resolver_defs example_defs)
  have e2: "dots ''Pod'' < 2
            \<and> RESTMapping ?idx (ParseGroupKind ''Pod'') [] () = ((Some podsMapping, None), ())"
    by (simp add: parser_defs identity_defs example_defs)
  have k3: "kindForSteps ''Deployment.v1.apps'' ?idx () =
              (ParseGroupResource ''Deployment.v1.apps'', GroupVersionKind_zero, ())"
    by (simp add: parser_defs identity_defs resolver_defs example_defs)
  have e3: "ParseKindArg ''Deployment.v1.apps'' = (Some ?full, ?gkD) \<and> \<not> gvk_Empty ?full
            \<and> RESTMapping ?idx (gvk_GroupKind ?full) (gvk_Version ?full) ()
                = ((Some deploymentsMapping, None), ())
            \<and> RESTMapping ?idx (ParseGroupKind ''Deployment.v1.apps'') [] ()
                = ((None, Some (NoKindMatchError ?gkD [[]])), ())"
    by (simp add: parser_defs identity_defs example_defs)
  have k4: "kindForSteps ''nonexistentthing'' ?idx () =
              (ParseGroupResource ''nonexistentthing'', GroupVersionKind_zero, ())"
    by (simp add: parser_defs identity_defs resolver_defs example_defs)
  have e4: "directAttempt ''nonexistentthing'' ?idx () = (?gkN, None, ())
            \<and> RESTMapping ?idx ?gkN [] () = ((None, Some (NoKindMatchError ?gkN [[]])), ())
            \<and> IsNoMatchError (NoKindMatchError ?gkN [[]])
            \<and> RESTMapping ?idx (ParseGroupKind ''nonexistentthing'') [] ()
                = ((None, Some (NoKindMatchError ?gkN [[]])), ())
            \<and> beforeDot ''nonexistentthing'' = ''nonexistentthing''"
    by (simp add: parser_defs identity_defs resolver_defs example_defs)
  from mappingFor_agrees_with_example [OF _ k1] e1
       mappingFor_agrees_with_example
         [OF _ k2, where mapping = "Some podsMapping" and ?s3.0 = "()"] e2 z
       mappingFor_agrees_with_example
         [OF _ k3, where fullGVK = ?full and gk = ?gkD and direct = "Some deploymentsMapping"
            and sa = "()"] e3 z
       mappingFor_agrees_with_example
         [OF _ k4, where gk' = ?gkN and sb = "()" and lost = None
            and e = "NoKindMatchError ?gkN [[]]" and sc = "()"] e4 z
  show ?thesis by simp
qed

text \<open>
  The two functions do not succeed on the same tokens. \<^verbatim>\<open>Deployment.v1.apps\<close> names
  the kind: against a table with pods and deployments both \<^verbatim>\<open>KindFor\<close> lookups find
  nothing; the service then looks up the kind \<^verbatim>\<open>Deployment\<close> of \<^verbatim>\<open>apps\<close> at
  \<^verbatim>\<open>v1\<close> and returns its mapping, while the example looks up a kind
  \<^verbatim>\<open>Deployment\<close> of a group \<^verbatim>\<open>v1.apps\<close> and fails.
\<close>

theorem mappingFor_succeeds_where_example_fails:
  "fst (mappingFor ''Deployment.v1.apps'' (tableIndex [podsMapping, deploymentsMapping]) ())
     = (Some deploymentsMapping, None)
   \<and> fst (restmapper_mappingFor ''Deployment.v1.apps''
            (tableIndex [podsMapping, deploymentsMapping]) ())
     = (None, Some (NoKindMatchError \<lparr>gk_Group = ''v1.apps'', gk_Kind = ''Deployment''\<rparr> [[]]))"
  by (simp add: parser_defs identity_defs resolver_defs restmapper_mappingFor_def example_defs)

section \<open>No match\<close>

text \<open>
  C3. For a non-empty token: when the \<^verbatim>\<open>KindFor\<close> steps leave the kind empty, the
  direct lookup does not return, and the last lookup fails with a no-match error,
  \<^verbatim>\<open>mappingFor\<close> returns no mapping and the error
  \<^verbatim>\<open>fmt.Errorf("the server doesn't have a resource type %q", groupResource.Resource)\<close>,
  whose argument is the token up to its first dot. When the \<^verbatim>\<open>KindFor\<close> steps resolve
  a non-empty kind, a failure of the lookup of that kind is returned as the index gave it,
  a no-match error included.
\<close>

theorem mappingFor_no_match:
  assumes "tok \<noteq> []" and "kindForSteps tok restMapper s = (gr, gvk, s2)"
  shows "(gvk_Empty gvk \<and> directAttempt tok restMapper s2 = (gk, None, s3)
            \<and> RESTMapping restMapper gk [] s3 = ((mapping, Some e), s4)
            \<and> IsNoMatchError e \<longrightarrow>
          mappingFor tok restMapper s =
            ((None, Some (Errorf ''the server doesn't have a resource type %q''
                            [beforeDot tok])), s4))
         \<and> (\<not> gvk_Empty gvk
              \<and> RESTMapping restMapper (gvk_GroupKind gvk) (gvk_Version gvk) s2
                  = ((mapping, Some e), s3) \<longrightarrow>
            mappingFor tok restMapper s = ((mapping, Some e), s3))"
proof -
  from assms(2) kindForSteps_groupResource [of tok restMapper s]
  have "gr_Resource gr = beforeDot tok" by (simp add: ParseGroupResource_def)
  with assms show ?thesis
    by (auto simp: mappingFor_terminal mappingFor_resolved)
qed

text \<open>
  The first case at \<^verbatim>\<open>pods.apps\<close>, which no entry of the table matches: the error names
  \<^verbatim>\<open>pods\<close>. The second at an index whose \<^verbatim>\<open>KindFor\<close> resolves a kind for which
  its \<^verbatim>\<open>RESTMapping\<close> has no match.
\<close>

theorem mappingFor_no_match_witness:
  "mappingFor ''pods.apps'' (tableIndex [podsMapping, deploymentsMapping]) ()
     = ((None, Some (Errorf ''the server doesn't have a resource type %q'' [''pods''])), ())
   \<and> mappingFor ''deployments''
         (constIndex (GroupVersionKind deploymentsMapping, None)
            (None, Some (NoResourceMatchError (Resource deploymentsMapping)))) ()
     = ((None, Some (NoResourceMatchError (Resource deploymentsMapping))), ())"
proof -
  let ?idx = "tableIndex [podsMapping, deploymentsMapping] :: unit RESTMapper"
  let ?gk = "\<lparr>gk_Group = ''apps'', gk_Kind = ''pods''\<rparr>"
  let ?e = "NoKindMatchError ?gk [[]]"
  let ?e' = "NoResourceMatchError (Resource deploymentsMapping)"
  let ?idx' = "constIndex (GroupVersionKind deploymentsMapping, None) (None, Some ?e')
                 :: unit RESTMapper"
  have k: "kindForSteps ''pods.apps'' ?idx () =
             (ParseGroupResource ''pods.apps'', GroupVersionKind_zero, ())"
    by (simp add: parser_defs identity_defs resolver_defs example_defs)
  have h: "gvk_Empty GroupVersionKind_zero
           \<and> directAttempt ''pods.apps'' ?idx () = (?gk, None, ())
           \<and> RESTMapping ?idx ?gk [] () = ((None, Some ?e), ())
           \<and> IsNoMatchError ?e"
    by (simp add: parser_defs identity_defs resolver_defs example_defs)
  have b: "beforeDot ''pods.apps'' = ''pods''"
    by (simp add: beforeDot_def)
  have k': "kindForSteps ''deployments'' ?idx' () =
              (ParseGroupResource ''deployments'', GroupVersionKind deploymentsMapping, ())"
    by (simp add: parser_defs identity_defs resolver_defs example_defs)
  have h': "\<not> gvk_Empty (GroupVersionKind deploymentsMapping)
            \<and> RESTMapping ?idx' (gvk_GroupKind (GroupVersionKind deploymentsMapping))
                 (gvk_Version (GroupVersionKind deploymentsMapping)) ()
                = ((None, Some ?e'), ())"
    by (simp add: identity_defs example_defs)
  from mappingFor_no_match
         [OF _ k, where gk = ?gk and ?s3.0 = "()" and mapping = None and e = ?e
            and ?s4.0 = "()"] h b
       mappingFor_no_match [OF _ k', where mapping = None and e = ?e' and ?s3.0 = "()"] h'
  show ?thesis by simp
qed

text \<open>
  On the path of a resolved kind a no-match error is not turned into the resource-type
  message: \<^verbatim>\<open>KindFor\<close> resolves the kind of pods, \<^verbatim>\<open>RESTMapping\<close> has no match for
  it, and the caller receives the \<^verbatim>\<open>NoKindMatchError\<close> itself.
\<close>

theorem mappingFor_no_match_returned_raw:
  "fst (mappingFor ''pods''
          (constIndex (GroupVersionKind podsMapping, None)
             (None, Some (NoKindMatchError \<lparr>gk_Group = [], gk_Kind = ''Pod''\<rparr> [''v1'']))) ())
     = (None, Some (NoKindMatchError \<lparr>gk_Group = [], gk_Kind = ''Pod''\<rparr> [''v1'']))
   \<and> fst (mappingFor ''pods''
          (constIndex (GroupVersionKind podsMapping, None)
             (None, Some (NoKindMatchError \<lparr>gk_Group = [], gk_Kind = ''Pod''\<rparr> [''v1'']))) ())
     \<noteq> (None, Some (Errorf ''the server doesn't have a resource type %q'' [''pods'']))"
  by (simp add: parser_defs identity_defs resolver_defs example_defs)

section \<open>The empty token\<close>

text \<open>
  C4. For every index, in every state, \<^verbatim>\<open>mappingFor\<close> applied to the empty token
  returns no mapping and the error \<^verbatim>\<open>fmt.Errorf("resource type cannot be empty")\<close>,
  leaves the index as it was, and issues no query against it.
\<close>

theorem mappingFor_empty_token:
  "mappingFor [] restMapper s =
     ((None, Some (Errorf ''resource type cannot be empty'' [])), s)
   \<and> queries [] restMapper s = []"
  by (simp add: mappingFor_def queries_def)

section \<open>Fully specified tokens\<close>

lemma dots_append_dot:
  "dots (xs @ CHR ''.'' # ys) = Suc (dots xs + dots ys)"
  by (simp add: dots_def)

lemma beforeDot_append_dot:
  "CHR ''.'' \<notin> set xs \<Longrightarrow> beforeDot (xs @ CHR ''.'' # ys) = xs"
  by (induction xs) (auto simp: beforeDot_def)

lemma afterDot_append_dot:
  "CHR ''.'' \<notin> set xs \<Longrightarrow> afterDot (xs @ CHR ''.'' # ys) = ys"
  by (induction xs) (auto simp: afterDot_def)

lemma ParseResourceArg_triple:
  assumes "CHR ''.'' \<notin> set res" and "CHR ''.'' \<notin> set ver"
  shows "fst (ParseResourceArg (res @ CHR ''.'' # ver @ CHR ''.'' # grp)) =
           Some \<lparr>gvr_Group = grp, gvr_Version = ver, gvr_Resource = res\<rparr>"
  using assms
  by (simp add: ParseResourceArg_def dots_append_dot beforeDot_append_dot afterDot_append_dot)

text \<open>
  C5. Let a token consist of a resource segment, a version segment and a group, separated
  by dots, the first two segments without a dot. Let the index hold a mapping of that
  group, version and resource whose kind is not empty and has the same version:
  \<^verbatim>\<open>KindFor\<close> answers the resource with the kind of the mapping, and
  \<^verbatim>\<open>RESTMapping\<close> answers that kind and version with the mapping. Then
  \<^verbatim>\<open>mappingFor\<close> returns this mapping, the version of its kind is the version segment
  of the token, and the call issues exactly the \<^verbatim>\<open>KindFor\<close> query for the fully
  specified resource and the \<^verbatim>\<open>RESTMapping\<close> query for its kind: the second
  \<^verbatim>\<open>KindFor\<close>, the direct lookup and the last lookup are not made.
\<close>

theorem mappingFor_fully_specified:
  assumes "CHR ''.'' \<notin> set res" and "CHR ''.'' \<notin> set ver"
    and "Resource mapping =
           \<lparr>gvr_Group = grp, gvr_Version = ver, gvr_Resource = res\<rparr>"
    and "gvk_Version (GroupVersionKind mapping) = ver"
    and "\<not> gvk_Empty (GroupVersionKind mapping)"
    and "KindFor restMapper (Resource mapping) s = ((GroupVersionKind mapping, err), s1)"
    and "RESTMapping restMapper (gvk_GroupKind (GroupVersionKind mapping)) ver s1
           = ((Some mapping, None), s2)"
  shows "mappingFor (res @ ''.'' @ ver @ ''.'' @ grp) restMapper s
           = ((Some mapping, None), s2)
         \<and> map_option (\<lambda>m. gvk_Version (GroupVersionKind m))
               (fst (fst (mappingFor (res @ ''.'' @ ver @ ''.'' @ grp) restMapper s)))
             = Some ver
         \<and> queries (res @ ''.'' @ ver @ ''.'' @ grp) restMapper s
             = [QKindFor (Resource mapping),
                QRESTMapping (gvk_GroupKind (GroupVersionKind mapping)) ver]"
proof -
  let ?tok = "res @ ''.'' @ ver @ ''.'' @ grp"
  from assms(1,2) have p: "fst (ParseResourceArg ?tok) = Some (Resource mapping)"
    by (simp add: ParseResourceArg_triple assms(3))
  have ne: "?tok \<noteq> []" by simp
  from p assms(5,6)
  have k: "kindForSteps ?tok restMapper s =
             (snd (ParseResourceArg ?tok), GroupVersionKind mapping, s1)"
    by (simp add: kindForSteps_def case_prod_beta)
  from p assms(5,6)
  have kq: "kindForQueries ?tok restMapper s = [QKindFor (Resource mapping)]"
    by (simp add: kindForQueries_def kindForSteps_def KindFor_recording case_prod_beta)
  from mappingFor_resolved [OF ne k assms(5)] assms(4,7)
  have "mappingFor ?tok restMapper s = ((Some mapping, None), s2)" by simp
  moreover from queries_resolved [OF ne k assms(5)] kq assms(4)
  have "queries ?tok restMapper s =
          [QKindFor (Resource mapping),
           QRESTMapping (gvk_GroupKind (GroupVersionKind mapping)) ver]" by simp
  ultimately show ?thesis using assms(4) by simp
qed

text \<open>The token \<^verbatim>\<open>deployments.v1.apps\<close> against a table with pods and deployments.\<close>

theorem mappingFor_fully_specified_witness:
  "mappingFor ''deployments.v1.apps'' (tableIndex [podsMapping, deploymentsMapping]) ()
     = ((Some deploymentsMapping, None), ())
   \<and> map_option (\<lambda>m. gvk_Version (GroupVersionKind m))
         (fst (fst (mappingFor ''deployments.v1.apps''
                      (tableIndex [podsMapping, deploymentsMapping]) ())))
       = Some ''v1''
   \<and> queries ''deployments.v1.apps'' (tableIndex [podsMapping, deploymentsMapping]) ()
       = [QKindFor (Resource deploymentsMapping),
          QRESTMapping (gvk_GroupKind (GroupVersionKind deploymentsMapping)) ''v1'']"
proof -
  let ?idx = "tableIndex [podsMapping, deploymentsMapping] :: unit RESTMapper"
  have 1: "CHR ''.'' \<notin> set ''deployments''" and 2: "CHR ''.'' \<notin> set ''v1''" by simp_all
  have 3: "Resource deploymentsMapping =
             \<lparr>gvr_Group = ''apps'', gvr_Version = ''v1'', gvr_Resource = ''deployments''\<rparr>"
    and 4: "gvk_Version (GroupVersionKind deploymentsMapping) = ''v1''"
    and 5: "\<not> gvk_Empty (GroupVersionKind deploymentsMapping)"
    by (simp_all add: identity_defs example_defs)
  have 6: "KindFor ?idx (Resource deploymentsMapping) ()
             = ((GroupVersionKind deploymentsMapping, None), ())"
    by (simp add: identity_defs example_defs)
  have 7: "RESTMapping ?idx (gvk_GroupKind (GroupVersionKind deploymentsMapping)) ''v1'' ()
             = ((Some deploymentsMapping, None), ())"
    by (simp add: identity_defs example_defs)
  have t: "''deployments'' @ ''.'' @ ''v1'' @ ''.'' @ ''apps'' = ''deployments.v1.apps''"
    by simp
  from mappingFor_fully_specified [OF 1 2 3 4 5 6 7] show ?thesis
    unfolding t .
qed

section \<open>Failures of the index\<close>

lemma kindForSteps_ignores_errors:
  "kindForSteps tok
     (restMapper\<lparr>KindFor := \<lambda>gvr s.
        ((fst (fst (KindFor restMapper gvr s)), None), snd (KindFor restMapper gvr s))\<rparr>) s
   = kindForSteps tok restMapper s"
  by (simp add: kindForSteps_def case_prod_beta split: option.splits)

lemma directAttempt_KindFor_update:
  "directAttempt tok (restMapper\<lparr>KindFor := f\<rparr>) s = directAttempt tok restMapper s"
  by (simp add: directAttempt_def case_prod_beta Let_def)

text \<open>
  C6. For a non-empty token, a failure other than no-match of the lookup that decides the
  call is returned to the caller as the index gave it, not wrapped: the
  \<^verbatim>\<open>RESTMapping\<close> lookup of the kind that the \<^verbatim>\<open>KindFor\<close> steps resolved, or,
  when they left the kind empty and the direct lookup did not return, the last lookup.
  The errors of the \<^verbatim>\<open>KindFor\<close> lookups are dropped: an index whose \<^verbatim>\<open>KindFor\<close>
  gives the same kinds and never an error leads to the same result.
\<close>

theorem mappingFor_upstream_failure:
  assumes "tok \<noteq> []" and "kindForSteps tok restMapper s = (gr, gvk, s2)"
    and "\<not> IsNoMatchError e"
  shows "(\<not> gvk_Empty gvk
            \<and> RESTMapping restMapper (gvk_GroupKind gvk) (gvk_Version gvk) s2
                = ((mapping, Some e), s3) \<longrightarrow>
          mappingFor tok restMapper s = ((mapping, Some e), s3))
         \<and> (gvk_Empty gvk \<and> directAttempt tok restMapper s2 = (gk, None, s3)
              \<and> RESTMapping restMapper gk [] s3 = ((mapping, Some e), s4) \<longrightarrow>
            mappingFor tok restMapper s = ((None, Some e), s4))
         \<and> mappingFor tok
              (restMapper\<lparr>KindFor := \<lambda>gvr s.
                 ((fst (fst (KindFor restMapper gvr s)), None),
                  snd (KindFor restMapper gvr s))\<rparr>) s
            = mappingFor tok restMapper s"
proof (intro conjI impI)
  assume "\<not> gvk_Empty gvk
          \<and> RESTMapping restMapper (gvk_GroupKind gvk) (gvk_Version gvk) s2
              = ((mapping, Some e), s3)"
  with assms show "mappingFor tok restMapper s = ((mapping, Some e), s3)"
    by (simp add: mappingFor_resolved)
next
  assume "gvk_Empty gvk \<and> directAttempt tok restMapper s2 = (gk, None, s3)
          \<and> RESTMapping restMapper gk [] s3 = ((mapping, Some e), s4)"
  with assms show "mappingFor tok restMapper s = ((None, Some e), s4)"
    by (simp add: mappingFor_terminal)
next
  show "mappingFor tok
          (restMapper\<lparr>KindFor := \<lambda>gvr s.
             ((fst (fst (KindFor restMapper gvr s)), None),
              snd (KindFor restMapper gvr s))\<rparr>) s
        = mappingFor tok restMapper s"
    by (simp add: mappingFor_def kindForSteps_ignores_errors directAttempt_KindFor_update
          case_prod_beta cong: option.case_cong)
qed

text \<open>A refused connection at the lookup of a resolved kind, and at the last lookup.\<close>

theorem mappingFor_upstream_failure_witness:
  "mappingFor ''pods''
     (constIndex (GroupVersionKind podsMapping, None)
        (None, Some (OtherError ''connection refused''))) ()
     = ((None, Some (OtherError ''connection refused'')), ())
   \<and> mappingFor ''Pod''
       (constIndex (GroupVersionKind_zero, None)
          (Some podsMapping, Some (OtherError ''connection refused''))) ()
     = ((None, Some (OtherError ''connection refused'')), ())"
proof -
  let ?e = "OtherError ''connection refused''"
  let ?idx = "constIndex (GroupVersionKind podsMapping, None) (None, Some ?e) :: unit RESTMapper"
  let ?idx' = "constIndex (GroupVersionKind_zero, None) (Some podsMapping, Some ?e)
                 :: unit RESTMapper"
  let ?gk = "\<lparr>gk_Group = [], gk_Kind = ''Pod''\<rparr>"
  have e: "\<not> IsNoMatchError ?e" by simp
  have k: "kindForSteps ''pods'' ?idx () =
             (ParseGroupResource ''pods'', GroupVersionKind podsMapping, ())"
    by (simp add: parser_defs identity_defs resolver_defs example_defs)
  have h: "\<not> gvk_Empty (GroupVersionKind podsMapping)
           \<and> RESTMapping ?idx (gvk_GroupKind (GroupVersionKind podsMapping))
                (gvk_Version (GroupVersionKind podsMapping)) () = ((None, Some ?e), ())"
    by (simp add: identity_defs example_defs)
  have k': "kindForSteps ''Pod'' ?idx' () =
              (ParseGroupResource ''Pod'', GroupVersionKind_zero, ())"
    by (simp add: parser_defs identity_defs resolver_defs example_defs)
  have h': "gvk_Empty GroupVersionKind_zero
            \<and> directAttempt ''Pod'' ?idx' () = (?gk, None, ())
            \<and> RESTMapping ?idx' ?gk [] () = ((Some podsMapping, Some ?e), ())"
    by (simp add: parser_defs identity_defs resolver_defs example_defs)
  from mappingFor_upstream_failure [OF _ k e, where mapping = None and ?s3.0 = "()"] h
       mappingFor_upstream_failure
         [OF _ k' e, where gk = ?gk and ?s3.0 = "()" and mapping = "Some podsMapping"
            and ?s4.0 = "()"] h'
  show ?thesis by simp
qed

text \<open>
  A failure of \<^verbatim>\<open>KindFor\<close> is not surfaced: the connection is refused at the
  \<^verbatim>\<open>KindFor\<close> query for \<^verbatim>\<open>Pod\<close>, the lookup of the kind succeeds, and the call
  returns the mapping with no error.
\<close>

theorem mappingFor_swallows_KindFor_failure:
  "fst (KindFor (constIndex (GroupVersionKind_zero, Some (OtherError ''connection refused''))
                   (Some podsMapping, None))
          \<lparr>gvr_Group = [], gvr_Version = [], gvr_Resource = ''Pod''\<rparr> ())
     = (GroupVersionKind_zero, Some (OtherError ''connection refused''))
   \<and> queries ''Pod''
       (constIndex (GroupVersionKind_zero, Some (OtherError ''connection refused''))
          (Some podsMapping, None)) ()
     = [QKindFor \<lparr>gvr_Group = [], gvr_Version = [], gvr_Resource = ''Pod''\<rparr>,
        QRESTMapping \<lparr>gk_Group = [], gk_Kind = ''Pod''\<rparr> []]
   \<and> fst (mappingFor ''Pod''
            (constIndex (GroupVersionKind_zero, Some (OtherError ''connection refused''))
               (Some podsMapping, None)) ())
     = (Some podsMapping, None)"
  by (simp add: parser_defs identity_defs resolver_defs observer_defs example_defs)

section \<open>The direct lookup\<close>

text \<open>
  C7. For a non-empty token: when the \<^verbatim>\<open>KindFor\<close> steps leave the kind empty and the
  parse of the token as a kind gives a fully specified kind that is not empty, the query
  after those of the \<^verbatim>\<open>KindFor\<close> steps is \<^verbatim>\<open>RESTMapping\<close> for the GroupKind and
  the version of that kind; and when this lookup gives no error, \<^verbatim>\<open>mappingFor\<close>
  returns its mapping and issues no further query.
\<close>

theorem mappingFor_direct_early_exit:
  assumes "tok \<noteq> []" and "kindForSteps tok restMapper s = (gr, gvk, s2)"
    and "gvk_Empty gvk"
    and "ParseKindArg tok = (Some fullGVK, gk)" and "\<not> gvk_Empty fullGVK"
  shows "take (Suc (length (kindForQueries tok restMapper s))) (queries tok restMapper s)
           = kindForQueries tok restMapper s
               @ [QRESTMapping (gvk_GroupKind fullGVK) (gvk_Version fullGVK)]
         \<and> (RESTMapping restMapper (gvk_GroupKind fullGVK) (gvk_Version fullGVK) s2
               = ((mapping, None), s3) \<longrightarrow>
             mappingFor tok restMapper s = ((mapping, None), s3)
             \<and> queries tok restMapper s =
                 kindForQueries tok restMapper s
                   @ [QRESTMapping (gvk_GroupKind fullGVK) (gvk_Version fullGVK)])"
    (is "?attempted \<and> (?succeeds \<longrightarrow> ?returns)")
proof -
  from assms(4,5) have dq:
    "directAttemptQueries tok restMapper s2 =
       [QRESTMapping (gvk_GroupKind fullGVK) (gvk_Version fullGVK)]"
    by (simp add: directAttemptQueries_def directAttempt_def RESTMapping_recording
          case_prod_beta)
  obtain gk' r s3' where d: "directAttempt tok restMapper s2 = (gk', r, s3')"
    by (cases "directAttempt tok restMapper s2") auto
  have "?attempted"
  proof (cases r)
    case None
    with queries_terminal [OF assms(1-3), of gk' s3'] d dq show ?thesis by simp
  next
    case (Some m)
    with queries_direct [OF assms(1-3), of gk' m s3'] d dq show ?thesis by simp
  qed
  moreover have "?returns" if h: "?succeeds"
  proof -
    from assms(4,5) h have e: "directAttempt tok restMapper s2 = (gk, Some mapping, s3)"
      by (simp add: directAttempt_def)
    from mappingFor_direct [OF assms(1-3) e] queries_direct [OF assms(1-3) e] dq
    show ?thesis by simp
  qed
  ultimately show ?thesis by blast
qed

text \<open>
  \<^verbatim>\<open>Deployment.v1.apps\<close> names the kind: both \<^verbatim>\<open>KindFor\<close> lookups find nothing,
  and the direct lookup returns the mapping of deployments.
\<close>

theorem mappingFor_direct_early_exit_witness:
  "mappingFor ''Deployment.v1.apps'' (tableIndex [podsMapping, deploymentsMapping]) ()
     = ((Some deploymentsMapping, None), ())
   \<and> queries ''Deployment.v1.apps'' (tableIndex [podsMapping, deploymentsMapping]) ()
     = [QKindFor \<lparr>gvr_Group = ''apps'', gvr_Version = ''v1'', gvr_Resource = ''Deployment''\<rparr>,
        QKindFor \<lparr>gvr_Group = ''v1.apps'', gvr_Version = [], gvr_Resource = ''Deployment''\<rparr>,
        QRESTMapping \<lparr>gk_Group = ''apps'', gk_Kind = ''Deployment''\<rparr> ''v1'']"
proof -
  let ?idx = "tableIndex [podsMapping, deploymentsMapping] :: unit RESTMapper"
  let ?tok = "''Deployment.v1.apps''"
  let ?full = "\<lparr>gvk_Group = ''apps'', gvk_Version = ''v1'', gvk_Kind = ''Deployment''\<rparr>"
  have ne: "?tok \<noteq> []" by simp
  have k: "kindForSteps ?tok ?idx () = (ParseGroupResource ?tok, GroupVersionKind_zero, ())"
    by (simp add: parser_defs identity_defs resolver_defs example_defs)
  have kq: "kindForQueries ?tok ?idx () =
     [QKindFor \<lparr>gvr_Group = ''apps'', gvr_Version = ''v1'', gvr_Resource = ''Deployment''\<rparr>,
      QKindFor \<lparr>gvr_Group = ''v1.apps'', gvr_Version = [], gvr_Resource = ''Deployment''\<rparr>]"
    by (simp add: parser_defs identity_defs resolver_defs observer_defs example_defs)
  have z: "gvk_Empty GroupVersionKind_zero" by (simp add: identity_defs)
  have p: "ParseKindArg ?tok = (Some ?full, ParseGroupKind ?tok)"
    by (simp add: parser_defs)
  have f: "\<not> gvk_Empty ?full" by (simp add: identity_defs)
  have r: "RESTMapping ?idx (gvk_GroupKind ?full) (gvk_Version ?full) ()
             = ((Some deploymentsMapping, None), ())"
    by (simp add: identity_defs example_defs)
  from mappingFor_direct_early_exit
         [OF ne k z p f, where mapping = "Some deploymentsMapping" and ?s3.0 = "()"] r kq
  show ?thesis by (simp add: identity_defs)
qed

section \<open>Successful results\<close>

lemma directAttempt_Some:
  assumes "directAttempt tok restMapper s2 = (gk, Some mapping, s3)"
  shows "\<exists>k v. RESTMapping restMapper k v s2 = ((mapping, None), s3)"
  using assms
  by (auto simp: directAttempt_def Let_def split: prod.splits if_splits)

lemma mappingFor_success_origin:
  assumes "mappingFor tok restMapper s = ((mapping, None), s')"
  shows "\<exists>gk version s0. RESTMapping restMapper gk version s0 = ((mapping, None), s')"
proof -
  from assms have ne: "tok \<noteq> []" by (auto simp: mappingFor_def)
  obtain gr gvk s2 where k: "kindForSteps tok restMapper s = (gr, gvk, s2)"
    by (cases "kindForSteps tok restMapper s") auto
  show ?thesis
  proof (cases "gvk_Empty gvk")
    case False
    from mappingFor_resolved [OF ne k False] assms show ?thesis by auto
  next
    case True
    obtain gk r s3 where d: "directAttempt tok restMapper s2 = (gk, r, s3)"
      by (cases "directAttempt tok restMapper s2") auto
    show ?thesis
    proof (cases r)
      case (Some m)
      with mappingFor_direct [OF ne k True, of gk m s3] d assms
      have "m = mapping" "s3 = s'" by simp_all
      with d Some directAttempt_Some [of tok restMapper s2 gk mapping s'] show ?thesis
        by blast
    next
      case None
      obtain m err s4 where r: "RESTMapping restMapper gk [] s3 = ((m, err), s4)"
        by (cases "RESTMapping restMapper gk [] s3") auto
      from mappingFor_terminal [OF ne k True _ r] d None assms
      have "err = None \<and> m = mapping \<and> s4 = s'"
        by (cases err) simp_all
      with r show ?thesis by auto
    qed
  qed
qed

text \<open>
  C8. Whenever \<^verbatim>\<open>mappingFor\<close> returns without an error, the mapping pointer it returns
  is the one that a \<^verbatim>\<open>RESTMapping\<close> query of the index returned without an error, and
  \<^verbatim>\<open>mappingFor\<close> checks nothing about it. So for an index whose \<^verbatim>\<open>RESTMapping\<close>,
  whenever it gives no error, gives a mapping with a non-empty resource name, every result
  of \<^verbatim>\<open>mappingFor\<close> without an error is a mapping with a non-empty resource name.
\<close>

theorem mappingFor_success_passes_through:
  assumes "mappingFor tok restMapper s = ((mapping, None), s')"
  shows "(\<exists>gk version s0. RESTMapping restMapper gk version s0 = ((mapping, None), s'))
         \<and> ((\<forall>gk version s0 m s1.
                RESTMapping restMapper gk version s0 = ((m, None), s1) \<longrightarrow>
                (\<exists>r. m = Some r \<and> gvr_Resource (Resource r) \<noteq> [])) \<longrightarrow>
             (\<exists>r. mapping = Some r \<and> gvr_Resource (Resource r) \<noteq> []))"
  using mappingFor_success_origin [OF assms] by blast

text \<open>The table with pods is such an index, and \<^verbatim>\<open>pods\<close> resolves against it.\<close>

theorem mappingFor_success_passes_through_witness:
  "fst (mappingFor ''pods'' (tableIndex [podsMapping]) ()) = (Some podsMapping, None)
   \<and> gvr_Resource (Resource podsMapping) \<noteq> []"
proof -
  let ?idx = "tableIndex [podsMapping] :: unit RESTMapper"
  have m: "mappingFor ''pods'' ?idx () = ((Some podsMapping, None), ())"
    by (simp add: parser_defs identity_defs resolver_defs example_defs)
  have w: "\<forall>gk version s0 m s1.
             RESTMapping ?idx gk version s0 = ((m, None), s1) \<longrightarrow>
             (\<exists>r. m = Some r \<and> gvr_Resource (Resource r) \<noteq> [])"
    by (auto simp: example_defs split: if_splits)
  from mappingFor_success_passes_through [OF m] w m show ?thesis by auto
qed

text \<open>
  Without that property of the index a call succeeds with an empty resource name, or
  with no mapping at all: a table whose entry for the kind \<^verbatim>\<open>Pod\<close> has no resource
  name, and an index whose \<^verbatim>\<open>RESTMapping\<close> returns neither a mapping nor an error.
\<close>

theorem mappingFor_returns_unnamed_resource:
  "fst (mappingFor ''Pod'' (tableIndex [unnamedMapping]) ()) = (Some unnamedMapping, None)
   \<and> gvr_Resource (Resource unnamedMapping) = []
   \<and> fst (mappingFor ''Pod'' (constIndex (GroupVersionKind_zero, None) (None, None)) ())
       = (None, None)"
  by (simp add: parser_defs identity_defs resolver_defs example_defs unnamedMapping_def)

section \<open>The state of the index\<close>

text \<open>
  A call reaches the state of the index through its queries only: against an index that
  no query changes, each block and the whole call leave the index as it was.
\<close>

lemma kindForSteps_read_only:
  assumes "\<forall>gvr s. snd (KindFor restMapper gvr s) = s"
  shows "snd (snd (kindForSteps tok restMapper s)) = s"
  using assms by (simp add: kindForSteps_def case_prod_beta split: option.splits)

lemma directAttempt_read_only:
  assumes "\<forall>gk version s. snd (RESTMapping restMapper gk version s) = s"
  shows "snd (snd (directAttempt tok restMapper s)) = s"
  using assms by (simp add: directAttempt_def case_prod_beta Let_def)

lemma mappingFor_read_only:
  assumes "\<forall>gvr s. snd (KindFor restMapper gvr s) = s"
    and "\<forall>gk version s. snd (RESTMapping restMapper gk version s) = s"
  shows "snd (mappingFor tok restMapper s) = s"
  using kindForSteps_read_only [OF assms(1)] directAttempt_read_only [OF assms(2)] assms(2)
  by (simp add: mappingFor_def case_prod_beta split: option.splits)

section \<open>The repeated lookup\<close>

text \<open>
  C10. For a non-empty token for which the \<^verbatim>\<open>KindFor\<close> steps leave the kind empty and
  the parse as a kind gives no fully specified kind, \<^verbatim>\<open>mappingFor\<close> takes the parsed
  GroupKind with an empty version. Unless that kind is empty it asks \<^verbatim>\<open>RESTMapping\<close>
  for it, and when this lookup fails the last step issues the same query again; the result
  of the call follows from the answer to the second query: its mapping when it gives no
  error, the resource-type error of \<^verbatim>\<open>fmt.Errorf\<close>, with the token up to its first
  dot, when it gives a no-match error, and its error otherwise. When that kind is empty
  the lookup is made once, by the last step.
\<close>

theorem mappingFor_repeats_lookup:
  assumes "tok \<noteq> []" and "kindForSteps tok restMapper s = (gr, gvk, s2)"
    and "gvk_Empty gvk" and "ParseKindArg tok = (None, gk)"
  shows "(\<not> gvk_Empty (gk_WithVersion gk [])
            \<and> RESTMapping restMapper gk [] s2 = ((mapping1, Some e1), s3)
            \<and> RESTMapping restMapper gk [] s3 = ((mapping2, err2), s4) \<longrightarrow>
          queries tok restMapper s =
            kindForQueries tok restMapper s @ [QRESTMapping gk [], QRESTMapping gk []]
          \<and> mappingFor tok restMapper s =
              (case err2 of
                 None \<Rightarrow> ((mapping2, None), s4)
               | Some e \<Rightarrow>
                   ((None, Some (if IsNoMatchError e
                                 then Errorf ''the server doesn't have a resource type %q''
                                        [beforeDot tok]
                                 else e)), s4)))
         \<and> (gvk_Empty (gk_WithVersion gk []) \<longrightarrow>
              queries tok restMapper s = kindForQueries tok restMapper s @ [QRESTMapping gk []])"
    (is "(?attempted \<longrightarrow> ?twice) \<and> (?skipped \<longrightarrow> ?once)")
proof -
  have "?twice" if h: "?attempted"
  proof -
    from assms(4) h have d: "directAttempt tok restMapper s2 = (gk, None, s3)"
      by (simp add: directAttempt_def GroupKind_of_WithVersion Version_of_WithVersion)
    from assms(4) h have dq: "directAttemptQueries tok restMapper s2 = [QRESTMapping gk []]"
      by (simp add: directAttemptQueries_def directAttempt_def RESTMapping_recording
            GroupKind_of_WithVersion Version_of_WithVersion case_prod_beta)
    from assms(2) kindForSteps_groupResource [of tok restMapper s]
    have b: "gr_Resource gr = beforeDot tok" by (simp add: ParseGroupResource_def)
    from h have r: "RESTMapping restMapper gk [] s3 = ((mapping2, err2), s4)" by simp
    from queries_terminal [OF assms(1-3) d] dq
         mappingFor_terminal [OF assms(1-3) d r] b
    show ?thesis by (simp split: option.splits)
  qed
  moreover have "?once" if h: "?skipped"
  proof -
    from assms(4) h have d: "directAttempt tok restMapper s2 = (gk, None, s2)"
      by (simp add: directAttempt_def)
    from assms(4) h have dq: "directAttemptQueries tok restMapper s2 = []"
      by (simp add: directAttemptQueries_def directAttempt_def)
    from queries_terminal [OF assms(1-3) d] dq show ?thesis by simp
  qed
  ultimately show ?thesis by blast
qed

text \<open>
  The index that times out until two queries are answered: the first lookup of \<^verbatim>\<open>Pod\<close>
  fails, the second returns the mapping, and so does the call. And the token that is one
  dot, whose GroupKind is empty: one lookup.
\<close>

theorem mappingFor_repeats_lookup_witness:
  "queries ''Pod'' (warmingIndex podsMapping) 0
     = [QKindFor \<lparr>gvr_Group = [], gvr_Version = [], gvr_Resource = ''Pod''\<rparr>,
        QRESTMapping \<lparr>gk_Group = [], gk_Kind = ''Pod''\<rparr> [],
        QRESTMapping \<lparr>gk_Group = [], gk_Kind = ''Pod''\<rparr> []]
   \<and> mappingFor ''Pod'' (warmingIndex podsMapping) 0 = ((Some podsMapping, None), 3)
   \<and> queries ''.'' (tableIndex [podsMapping]) ()
     = [QKindFor \<lparr>gvr_Group = [], gvr_Version = [], gvr_Resource = []\<rparr>,
        QRESTMapping \<lparr>gk_Group = [], gk_Kind = []\<rparr> []]"
proof -
  let ?idx = "warmingIndex podsMapping"
  let ?gk = "\<lparr>gk_Group = [], gk_Kind = ''Pod''\<rparr>"
  let ?idx' = "tableIndex [podsMapping] :: unit RESTMapper"
  let ?gk' = "\<lparr>gk_Group = [], gk_Kind = []\<rparr>"
  have z: "gvk_Empty GroupVersionKind_zero" by (simp add: identity_defs)
  have k: "kindForSteps ''Pod'' ?idx 0 = (ParseGroupResource ''Pod'', GroupVersionKind_zero, 1)"
    by (simp add: parser_defs identity_defs resolver_defs example_defs warmingIndex_def)
  have kq: "kindForQueries ''Pod'' ?idx 0 =
              [QKindFor \<lparr>gvr_Group = [], gvr_Version = [], gvr_Resource = ''Pod''\<rparr>]"
    by (simp add: parser_defs identity_defs resolver_defs observer_defs example_defs warmingIndex_def)
  have p: "ParseKindArg ''Pod'' = (None, ?gk)" by (simp add: parser_defs)
  have h: "\<not> gvk_Empty (gk_WithVersion ?gk [])
           \<and> RESTMapping ?idx ?gk [] 1 = ((None, Some (OtherError ''timeout'')), 2)
           \<and> RESTMapping ?idx ?gk [] 2 = ((Some podsMapping, None), 3)"
    by (simp add: identity_defs example_defs warmingIndex_def)
  have k': "kindForSteps ''.'' ?idx' () = (ParseGroupResource ''.'', GroupVersionKind_zero, ())"
    by (simp add: parser_defs identity_defs resolver_defs example_defs warmingIndex_def)
  have kq': "kindForQueries ''.'' ?idx' () =
               [QKindFor \<lparr>gvr_Group = [], gvr_Version = [], gvr_Resource = []\<rparr>]"
    by (simp add: parser_defs identity_defs resolver_defs observer_defs example_defs warmingIndex_def)
  have p': "ParseKindArg ''.'' = (None, ?gk')" by (simp add: parser_defs)
  have h': "gvk_Empty (gk_WithVersion ?gk' [])" by (simp add: identity_defs)
  from mappingFor_repeats_lookup
         [OF _ k z p, where ?mapping1.0 = None and ?e1.0 = "OtherError ''timeout''"
            and ?s3.0 = 2 and ?mapping2.0 = "Some podsMapping" and ?err2.0 = None
            and ?s4.0 = 3] h kq
       mappingFor_repeats_lookup [OF _ k' z p'] h' kq'
  show ?thesis by simp
qed

text \<open>
  The result of the call is not the answer to the second query when that is a no-match
  error, and the token that is one dot leads to a single lookup.
\<close>

theorem mappingFor_outcome_not_second_result:
  "fst (mappingFor ''nonexistentthing'' (tableIndex [podsMapping]) ())
     \<noteq> fst (RESTMapping (tableIndex [podsMapping]) (ParseGroupKind ''nonexistentthing'') [] ())
   \<and> queries ''nonexistentthing'' (tableIndex [podsMapping]) ()
     = [QKindFor \<lparr>gvr_Group = [], gvr_Version = [], gvr_Resource = ''nonexistentthing''\<rparr>,
        QRESTMapping (ParseGroupKind ''nonexistentthing'') [],
        QRESTMapping (ParseGroupKind ''nonexistentthing'') []]
   \<and> queries ''.'' (tableIndex [podsMapping]) ()
     = [QKindFor \<lparr>gvr_Group = [], gvr_Version = [], gvr_Resource = []\<rparr>,
        QRESTMapping \<lparr>gk_Group = [], gk_Kind = []\<rparr> []]"
  by (simp add: parser_defs identity_defs resolver_defs observer_defs example_defs)

end
